theory Spec2Isabelle
  imports Main "HOL-Library.Sublist"
begin

section \<open>Strings and adapter outcomes\<close>

text \<open>
  The widgets are Svelte components written in TypeScript. A JavaScript string is modelled
  as a \<open>string\<close> (a list of characters). \<open>s.includes(t)\<close> tests whether \<open>t\<close> occurs
  in \<open>s\<close> as a contiguous run of characters.
\<close>

definition String_includes :: "string \<Rightarrow> string \<Rightarrow> bool" where
  "String_includes s t = sublist t s"

text \<open>
  \<open>s.toLowerCase()\<close>: the letters \<open>A\<close> to \<open>Z\<close> (codes 65 to 90) move to \<open>a\<close> to \<open>z\<close>;
  every other character of the model is left as it is. The only use of \<open>toLowerCase\<close> in
  the modelled code is followed by a search for the ASCII word \<open>loading\<close>.
\<close>

definition toLowerChar :: "char \<Rightarrow> char" where
  "toLowerChar c =
     (let n = (of_char c :: nat) in if 65 \<le> n \<and> n \<le> 90 then char_of (n + 32) else c)"

definition toLowerCase :: "string \<Rightarrow> string" where
  "toLowerCase s = map toLowerChar s"

text \<open>
  \<open>await invoke<T>(command)\<close> either resolves with the data of the backend command or
  rejects with an error value \<open>err\<close>; the catch blocks only ever use \<open>String(err)\<close>, which
  is what \<open>Rejected\<close> carries.
\<close>

datatype 'a outcome = Resolved 'a | Rejected string

text \<open>
  The error variables have type \<open>string | null\<close> and the templates test them with
  \<open>{#if error}\<close>: \<open>null\<close> and the empty string are both falsy.
\<close>

definition truthy :: "string option \<Rightarrow> bool" where
  "truthy e = (case e of None \<Rightarrow> False | Some m \<Rightarrow> m \<noteq> [])"

text \<open>What a template shows: one line of text, or the fetched data.\<close>

datatype 'a rendered = Message string | Content 'a

text \<open>
  The names of the error taxonomy. The components have no such enumeration: each
  classification below names one branch of a component's catch block and template.
\<close>

datatype kind =
  NotConfigured | AuthFailure | TransientNetwork | UnsupportedPlatform | StillLoading | Unknown

section \<open>JiraTickets.svelte\<close>

record 't JiraTickets =
  tickets :: "'t list"
  jira_error :: "string option"
  jira_isLoading :: bool

definition JiraTickets_init :: "'t JiraTickets" where
  "JiraTickets_init = \<lparr>tickets = [], jira_error = None, jira_isLoading = True\<rparr>"

text \<open>
  \<open>updateTickets\<close> from the point where the awaited \<open>invoke\<close> settles: the try block on
  success, the catch block on failure, then the finally block \<open>isLoading = keepLoading\<close>.
\<close>

fun updateTickets :: "'t list outcome \<Rightarrow> 't JiraTickets \<Rightarrow> 't JiraTickets" where
  "updateTickets (Resolved data) s =
     s\<lparr>tickets := data, jira_error := None, jira_isLoading := False\<rparr>"
| "updateTickets (Rejected errText) s =
     (if String_includes (toLowerCase errText) ''loading''
      then s\<lparr>jira_error := None, jira_isLoading := True\<rparr>
      else s\<lparr>jira_error := Some errText, tickets := [], jira_isLoading := False\<rparr>)"

definition JiraTickets_errorText :: "string \<Rightarrow> string" where
  "JiraTickets_errorText error =
     (if String_includes error ''environment variable'' \<or> String_includes error ''JIRA_''
      then ''Jira not configured. Set JIRA_EMAIL and JIRA_API_TOKEN in .env''
      else if String_includes error ''401'' \<or> String_includes error ''403''
      then ''Authentication failed. Check your email and API token in .env''
      else ''Error loading tickets'')"

definition JiraTickets_template :: "'t JiraTickets \<Rightarrow> 't list rendered" where
  "JiraTickets_template s =
     (if jira_isLoading s then Message ''Loading Jira tickets...''
      else if truthy (jira_error s)
      then Message (JiraTickets_errorText (case jira_error s of Some e \<Rightarrow> e | None \<Rightarrow> []))
      else if tickets s = [] then Message ''No tickets found''
      else Content (tickets s))"

text \<open>
  The order in which the component tests a failure message: first the lower-cased message
  for \<open>loading\<close> (catch block), then the original message for the configuration markers,
  then for the HTTP status codes (template).
\<close>

definition JiraTickets_classify :: "string \<Rightarrow> kind" where
  "JiraTickets_classify errText =
     (if String_includes (toLowerCase errText) ''loading'' then StillLoading
      else if String_includes errText ''environment variable'' \<or> String_includes errText ''JIRA_''
      then NotConfigured
      else if String_includes errText ''401'' \<or> String_includes errText ''403''
      then AuthFailure
      else Unknown)"

section \<open>SentryIssues.svelte\<close>

record 't SentryIssues =
  issues :: "'t list"
  sentry_error :: "string option"
  sentry_isLoading :: bool

definition SentryIssues_init :: "'t SentryIssues" where
  "SentryIssues_init = \<lparr>issues = [], sentry_error = None, sentry_isLoading = True\<rparr>"

fun updateIssues :: "'t list outcome \<Rightarrow> 't SentryIssues \<Rightarrow> 't SentryIssues" where
  "updateIssues (Resolved data) s =
     s\<lparr>issues := data, sentry_error := None, sentry_isLoading := False\<rparr>"
| "updateIssues (Rejected errText) s =
     (if String_includes (toLowerCase errText) ''loading''
      then s\<lparr>sentry_error := None, sentry_isLoading := True\<rparr>
      else s\<lparr>sentry_error := Some errText, issues := [], sentry_isLoading := False\<rparr>)"

definition SentryIssues_errorText :: "string \<Rightarrow> string" where
  "SentryIssues_errorText error =
     (if String_includes error ''SENTRY_AUTH_TOKEN''
      then ''Sentry not configured. Set SENTRY_AUTH_TOKEN in .env''
      else ''Error loading issues'')"

definition SentryIssues_template :: "'t SentryIssues \<Rightarrow> 't list rendered" where
  "SentryIssues_template s =
     (if sentry_isLoading s then Message ''Loading Sentry issues...''
      else if truthy (sentry_error s)
      then Message (SentryIssues_errorText (case sentry_error s of Some e \<Rightarrow> e | None \<Rightarrow> []))
      else if issues s = [] then Message ''No issues found''
      else Content (issues s))"

definition SentryIssues_classify :: "string \<Rightarrow> kind" where
  "SentryIssues_classify errText =
     (if String_includes (toLowerCase errText) ''loading'' then StillLoading
      else if String_includes errText ''SENTRY_AUTH_TOKEN'' then NotConfigured
      else Unknown)"

section \<open>HealthUp.svelte\<close>

record ServiceHealth =
  name :: string
  url :: string
  is_up :: bool
  status_code :: "int option"
  latency_ms :: "int option"
  checked_at_ms :: int
  service_error :: "string option"

record HealthUp =
  services :: "ServiceHealth list"
  health_isLoading :: bool
  health_error :: "string option"

definition HealthUp_init :: HealthUp where
  "HealthUp_init = \<lparr>services = [], health_isLoading = True, health_error = None\<rparr>"

fun updateHealth :: "ServiceHealth list outcome \<Rightarrow> HealthUp \<Rightarrow> HealthUp" where
  "updateHealth (Resolved data) s =
     s\<lparr>services := data, health_error := None, health_isLoading := False\<rparr>"
| "updateHealth (Rejected errText) s =
     s\<lparr>health_error := Some errText, health_isLoading := False\<rparr>"

definition HealthUp_template :: "HealthUp \<Rightarrow> ServiceHealth list rendered" where
  "HealthUp_template s =
     (if health_isLoading s then Message ''Loading health checks...''
      else if truthy (health_error s) then Message ''Unable to load health checks''
      else if services s = [] then Message ''No services configured''
      else Content (services s))"

text \<open>
  \<open>formatCheckedAt\<close> returns the text \<open>n/a\<close> for a falsy argument and otherwise the
  locale's time of day of the instant; \<open>TimeOfDay t\<close> stands for that formatted text of
  the instant \<open>t\<close> (milliseconds since the epoch, an integer here).
\<close>

datatype checkedLabel = NotAvailable | TimeOfDay int

definition formatCheckedAt :: "int \<Rightarrow> checkedLabel" where
  "formatCheckedAt checkedAtMs = (if checkedAtMs = 0 then NotAvailable else TimeOfDay checkedAtMs)"

text \<open>\<open>Math.max(...xs)\<close> on at least one argument; called only under \<open>services.length > 0\<close>.\<close>

fun Math_max :: "int \<Rightarrow> int list \<Rightarrow> int" where
  "Math_max x [] = x"
| "Math_max x (y # ys) = Math_max (max x y) ys"

definition lastCheckedLabel :: "ServiceHealth list \<Rightarrow> checkedLabel" where
  "lastCheckedLabel svcs =
     (case map checked_at_ms svcs of
        [] \<Rightarrow> NotAvailable
      | t # ts \<Rightarrow> formatCheckedAt (Math_max t ts))"

section \<open>CpuUsage.svelte and RamUsage.svelte\<close>

text \<open>
  The payload records \<open>CpuInfo\<close> and \<open>RamInfo\<close> are stored and shown as they arrive; the
  model leaves their type open. The initial payload is the all-zero literal of the
  declaration, passed as \<open>zero\<close>.
\<close>

record 'a CpuUsage =
  cpuUsage :: 'a
  cpu_isLoading :: bool
  cpu_loadError :: "string option"

definition CpuUsage_init :: "'a \<Rightarrow> 'a CpuUsage" where
  "CpuUsage_init zero = \<lparr>cpuUsage = zero, cpu_isLoading = True, cpu_loadError = None\<rparr>"

fun updateCpuUsage :: "'a outcome \<Rightarrow> 'a CpuUsage \<Rightarrow> 'a CpuUsage" where
  "updateCpuUsage (Resolved data) s =
     s\<lparr>cpuUsage := data, cpu_loadError := None, cpu_isLoading := False\<rparr>"
| "updateCpuUsage (Rejected errText) s =
     s\<lparr>cpu_loadError := Some errText, cpu_isLoading := False\<rparr>"

definition CpuUsage_template :: "'a CpuUsage \<Rightarrow> 'a rendered" where
  "CpuUsage_template s =
     (if cpu_isLoading s then Message ''Loading CPU usage...''
      else if truthy (cpu_loadError s) then Message ''Unable to load CPU usage''
      else Content (cpuUsage s))"

record 'a RamUsage =
  ramUsage :: 'a
  ram_isLoading :: bool
  ram_loadError :: "string option"

definition RamUsage_init :: "'a \<Rightarrow> 'a RamUsage" where
  "RamUsage_init zero = \<lparr>ramUsage = zero, ram_isLoading = True, ram_loadError = None\<rparr>"

fun updateRamUsage :: "'a outcome \<Rightarrow> 'a RamUsage \<Rightarrow> 'a RamUsage" where
  "updateRamUsage (Resolved data) s =
     s\<lparr>ramUsage := data, ram_loadError := None, ram_isLoading := False\<rparr>"
| "updateRamUsage (Rejected errText) s =
     s\<lparr>ram_loadError := Some errText, ram_isLoading := False\<rparr>"

definition RamUsage_template :: "'a RamUsage \<Rightarrow> 'a rendered" where
  "RamUsage_template s =
     (if ram_isLoading s then Message ''Loading RAM usage...''
      else if truthy (ram_loadError s) then Message ''Unable to load RAM usage''
      else Content (ramUsage s))"

section \<open>DockerContainers.svelte\<close>

record 't DockerContainers =
  containers :: "'t list"
  docker_error :: "string option"

definition DockerContainers_init :: "'t DockerContainers" where
  "DockerContainers_init = \<lparr>containers = [], docker_error = None\<rparr>"

fun updateContainers :: "'t list outcome \<Rightarrow> 't DockerContainers \<Rightarrow> 't DockerContainers" where
  "updateContainers (Resolved data) s = s\<lparr>containers := data, docker_error := None\<rparr>"
| "updateContainers (Rejected errText) s = s\<lparr>docker_error := Some errText, containers := []\<rparr>"

definition DockerContainers_errorText :: "string \<Rightarrow> string" where
  "DockerContainers_errorText error =
     (if String_includes error ''command not found'' \<or> String_includes error ''Failed to execute''
      then ''Docker not installed or not running''
      else ''Error loading containers'')"

definition DockerContainers_template :: "'t DockerContainers \<Rightarrow> 't list rendered" where
  "DockerContainers_template s =
     (if truthy (docker_error s)
      then Message (DockerContainers_errorText (case docker_error s of Some e \<Rightarrow> e | None \<Rightarrow> []))
      else if containers s = [] then Message ''No running containers''
      else Content (containers s))"

section \<open>The Spotify component and the earlier Jira component\<close>

record 't Spotify =
  track :: "'t option"
  spotify_error :: "string option"

definition Spotify_init :: "'t Spotify" where
  "Spotify_init = \<lparr>track = None, spotify_error = None\<rparr>"

fun updateTrack :: "'t outcome \<Rightarrow> 't Spotify \<Rightarrow> 't Spotify" where
  "updateTrack (Resolved data) s = s\<lparr>track := Some data, spotify_error := None\<rparr>"
| "updateTrack (Rejected errText) s = s\<lparr>spotify_error := Some errText, track := None\<rparr>"

definition Spotify_template :: "'t Spotify \<Rightarrow> 't rendered" where
  "Spotify_template s =
     (case (truthy (spotify_error s), track s) of
        (False, Some t) \<Rightarrow> Content t
      | _ \<Rightarrow>
         (case spotify_error s of
            None \<Rightarrow> Message ''No track playing''
          | Some error \<Rightarrow>
              if String_includes error ''not running'' then Message ''Spotify is not running''
              else if String_includes error ''only supported'' then Message ''Only supported on macOS''
              else Message ''No track playing''))"

text \<open>
  The earlier Jira component has no \<open>isLoading\<close> variable and no test for \<open>loading\<close>;
  its error template is the one of \<open>JiraTickets.svelte\<close>.
\<close>

record 't JiraTicketsOld =
  old_tickets :: "'t list"
  old_error :: "string option"

definition JiraTicketsOld_init :: "'t JiraTicketsOld" where
  "JiraTicketsOld_init = \<lparr>old_tickets = [], old_error = None\<rparr>"

fun updateTicketsOld :: "'t list outcome \<Rightarrow> 't JiraTicketsOld \<Rightarrow> 't JiraTicketsOld" where
  "updateTicketsOld (Resolved data) s = s\<lparr>old_tickets := data, old_error := None\<rparr>"
| "updateTicketsOld (Rejected errText) s = s\<lparr>old_error := Some errText, old_tickets := []\<rparr>"

definition JiraTicketsOld_template :: "'t JiraTicketsOld \<Rightarrow> 't list rendered" where
  "JiraTicketsOld_template s =
     (if truthy (old_error s)
      then Message (JiraTickets_errorText (case old_error s of Some e \<Rightarrow> e | None \<Rightarrow> []))
      else if old_tickets s = [] then Message ''No tickets found''
      else Content (old_tickets s))"

section \<open>Component lifecycle: mounting, the interval timer, destruction\<close>

text \<open>
  Every component has the same lifecycle code:
  \<^verbatim>\<open>onMount(() => { update(); interval = setInterval(update, ms); });\<close>
  \<^verbatim>\<open>onDestroy(() => { if (interval) { clearInterval(interval); } });\<close>
  The state of one component instance in the event loop:
  \<^item> \<open>widget\<close>: the component's reactive variables;
  \<^item> \<open>interval\<close>: the variable \<open>interval\<close>, \<open>None\<close> while it is undefined;
  \<^item> \<open>timers\<close>: the repeating timers of this component that the runtime holds, each
    with its handle and its period in milliseconds;
  \<^item> \<open>pending\<close>: the number of \<open>invoke\<close> calls that have started and not yet settled;
  \<^item> \<open>invoked\<close>: the number of \<open>invoke\<close> calls started so far.
  Calling the update function starts an \<open>invoke\<close> at once; the rest of its body runs
  when that call settles.
\<close>

record 'w component =
  widget :: 'w
  interval :: "nat option"
  timers :: "(nat \<times> nat) list"
  pending :: nat
  invoked :: nat

definition component_init :: "'w \<Rightarrow> 'w component" where
  "component_init w = \<lparr>widget = w, interval = None, timers = [], pending = 0, invoked = 0\<rparr>"

definition startUpdate :: "'w component \<Rightarrow> 'w component" where
  "startUpdate c = c\<lparr>pending := pending c + 1, invoked := invoked c + 1\<rparr>"

definition setInterval :: "nat \<Rightarrow> nat \<Rightarrow> 'w component \<Rightarrow> 'w component" where
  "setInterval ms h c = c\<lparr>timers := (h, ms) # timers c\<rparr>"

definition clearInterval :: "nat \<Rightarrow> 'w component \<Rightarrow> 'w component" where
  "clearInterval h c = c\<lparr>timers := filter (\<lambda>t. fst t \<noteq> h) (timers c)\<rparr>"

text \<open>\<open>onMount\<close>, where \<open>h\<close> is the handle that \<open>setInterval\<close> returns.\<close>

definition onMount :: "nat \<Rightarrow> nat \<Rightarrow> 'w component \<Rightarrow> 'w component" where
  "onMount ms h c = (setInterval ms h (startUpdate c))\<lparr>interval := Some h\<rparr>"

text \<open>\<open>onDestroy\<close>: \<open>if (interval)\<close> is false for an undefined variable and for the number 0.\<close>

definition onDestroy :: "'w component \<Rightarrow> 'w component" where
  "onDestroy c =
     (case interval c of
        None \<Rightarrow> c
      | Some h \<Rightarrow> if h \<noteq> 0 then clearInterval h c else c)"

text \<open>The runtime fires the timer \<open>h\<close>: its callback, the update function, is called if
  the timer is still registered.\<close>

definition tick :: "nat \<Rightarrow> 'w component \<Rightarrow> 'w component" where
  "tick h c = (if h \<in> set (map fst (timers c)) then startUpdate c else c)"

text \<open>A pending \<open>invoke\<close> settles and the rest of the update function runs.\<close>

definition settle :: "('a outcome \<Rightarrow> 'w \<Rightarrow> 'w) \<Rightarrow> 'a outcome \<Rightarrow> 'w component \<Rightarrow> 'w component" where
  "settle update out c =
     (if pending c = 0 then c
      else c\<lparr>widget := update out (widget c), pending := pending c - 1\<rparr>)"

datatype 'a event = Mount nat | Tick nat | Settle "'a outcome" | Destroy

fun step :: "nat \<Rightarrow> ('a outcome \<Rightarrow> 'w \<Rightarrow> 'w) \<Rightarrow> 'w component \<Rightarrow> 'a event \<Rightarrow> 'w component" where
  "step ms update c (Mount h) = onMount ms h c"
| "step ms update c (Tick h) = tick h c"
| "step ms update c (Settle out) = settle update out c"
| "step ms update c Destroy = onDestroy c"

text \<open>Applying a list of settled outcomes, or of failure messages, to a component's variables.\<close>

definition applyAll :: "('a outcome \<Rightarrow> 'w \<Rightarrow> 'w) \<Rightarrow> 'w \<Rightarrow> 'a outcome list \<Rightarrow> 'w" where
  "applyAll update s outs = foldl (\<lambda>s out. update out s) s outs"

definition afterFailures :: "('a outcome \<Rightarrow> 'w \<Rightarrow> 'w) \<Rightarrow> 'w \<Rightarrow> string list \<Rightarrow> 'w" where
  "afterFailures update s msgs = applyAll update s (map Rejected msgs)"

fun isMount :: "'a event \<Rightarrow> bool" where
  "isMount (Mount h) = True"
| "isMount e = False"

text \<open>The variable \<open>interval\<close> holds \<open>h\<close> and the component has no timer but \<open>h\<close>.\<close>

definition onlyTimer :: "nat \<Rightarrow> 'w component \<Rightarrow> bool" where
  "onlyTimer h c = (interval c = Some h \<and> list_all (\<lambda>t. fst t = h) (timers c))"

text \<open>The period each component passes to \<open>setInterval\<close>, and its update function.\<close>

definition CpuUsage_step :: "'a CpuUsage component \<Rightarrow> 'a event \<Rightarrow> 'a CpuUsage component" where
  "CpuUsage_step = step 2000 updateCpuUsage"

definition RamUsage_step :: "'a RamUsage component \<Rightarrow> 'a event \<Rightarrow> 'a RamUsage component" where
  "RamUsage_step = step 2000 updateRamUsage"

definition HealthUp_step :: "HealthUp component \<Rightarrow> ServiceHealth list event \<Rightarrow> HealthUp component" where
  "HealthUp_step = step 3000 updateHealth"

definition SentryIssues_step ::
  "'t SentryIssues component \<Rightarrow> 't list event \<Rightarrow> 't SentryIssues component" where
  "SentryIssues_step = step 3000 updateIssues"

definition Spotify_step :: "'t Spotify component \<Rightarrow> 't event \<Rightarrow> 't Spotify component" where
  "Spotify_step = step 3000 updateTrack"

definition DockerContainers_step ::
  "'t DockerContainers component \<Rightarrow> 't list event \<Rightarrow> 't DockerContainers component" where
  "DockerContainers_step = step 5000 updateContainers"

definition JiraTickets_step ::
  "'t JiraTickets component \<Rightarrow> 't list event \<Rightarrow> 't JiraTickets component" where
  "JiraTickets_step = step 30000 updateTickets"

definition JiraTicketsOld_step ::
  "'t JiraTicketsOld component \<Rightarrow> 't list event \<Rightarrow> 't JiraTicketsOld component" where
  "JiraTicketsOld_step = step 30000 updateTicketsOld"

section \<open>What a failed fetch shows\<close>

lemma includes_nonempty: "String_includes m t \<Longrightarrow> t \<noteq> [] \<Longrightarrow> m \<noteq> []"
  by (auto simp: String_includes_def)

lemma upper_LOADING: "String_includes (toLowerCase ''LOADING'') ''loading''"
  by code_simp

lemma mixed_Loading: "String_includes (toLowerCase ''Still Loading data'') ''loading''"
  by code_simp

lemma lower_jira_token:
  "\<not> String_includes (toLowerCase ''jira_api_token missing'') ''loading''"
  "\<not> String_includes ''jira_api_token missing'' ''JIRA_''"
  "\<not> String_includes ''jira_api_token missing'' ''environment variable''"
  "JiraTickets_errorText ''jira_api_token missing'' = ''Error loading tickets''"
  by code_simp+

lemma jira_token_unknown: "JiraTickets_classify ''jira_api_token missing'' = Unknown"
  by code_simp

lemma jira_failure_template:
  "JiraTickets_template (updateTickets (Rejected m) s) =
     (if String_includes (toLowerCase m) ''loading'' then Message ''Loading Jira tickets...''
      else if m = [] then Message ''No tickets found''
      else Message (JiraTickets_errorText m))"
  by (simp add: JiraTickets_template_def truthy_def)

lemma sentry_failure_template:
  "SentryIssues_template (updateIssues (Rejected m) s) =
     (if String_includes (toLowerCase m) ''loading'' then Message ''Loading Sentry issues...''
      else if m = [] then Message ''No issues found''
      else Message (SentryIssues_errorText m))"
  by (simp add: SentryIssues_template_def truthy_def)

section \<open>Case sensitivity of the markers\<close>

lemma jira_error_shown:
  "\<not> String_includes (toLowerCase m) ''loading'' \<Longrightarrow> m \<noteq> [] \<Longrightarrow>
   JiraTickets_template (updateTickets (Rejected m) s) = Message (JiraTickets_errorText m)"
  unfolding jira_failure_template by simp

lemma sentry_error_shown:
  "\<not> String_includes (toLowerCase m) ''loading'' \<Longrightarrow> m \<noteq> [] \<Longrightarrow>
   SentryIssues_template (updateIssues (Rejected m) s) = Message (SentryIssues_errorText m)"
  unfolding sentry_failure_template by simp

lemma toLowerChar_idem: "toLowerChar (toLowerChar c) = toLowerChar c"
proof (cases "65 \<le> (of_char c :: nat) \<and> (of_char c :: nat) \<le> 90")
  case True
  then have "(of_char (char_of (of_char c + 32 :: nat) :: char) :: nat) = of_char c + 32"
    by simp
  with True show ?thesis
    by (simp add: toLowerChar_def Let_def)
next
  case False
  then show ?thesis by (auto simp add: toLowerChar_def Let_def)
qed

lemma toLowerCase_idem: "toLowerCase (toLowerCase m) = toLowerCase m"
  by (simp add: toLowerCase_def toLowerChar_idem)

lemma case_inputs_loading:
  "\<not> String_includes (toLowerCase ''JIRA_API_TOKEN not set'') ''loading''"
  "\<not> String_includes (toLowerCase ''environment variable missing'') ''loading''"
  "\<not> String_includes (toLowerCase ''Environment Variable missing'') ''loading''"
  "\<not> String_includes (toLowerCase ''HTTP 401 Unauthorized'') ''loading''"
  "\<not> String_includes (toLowerCase ''HTTP 403 Forbidden'') ''loading''"
  "\<not> String_includes (toLowerCase ''SENTRY_AUTH_TOKEN missing'') ''loading''"
  "\<not> String_includes (toLowerCase ''sentry_auth_token missing'') ''loading''"
  by code_simp+

lemma case_inputs_jira:
  "JiraTickets_errorText ''JIRA_API_TOKEN not set''
     = ''Jira not configured. Set JIRA_EMAIL and JIRA_API_TOKEN in .env''"
  "JiraTickets_errorText ''environment variable missing''
     = ''Jira not configured. Set JIRA_EMAIL and JIRA_API_TOKEN in .env''"
  "JiraTickets_errorText ''Environment Variable missing'' = ''Error loading tickets''"
  "JiraTickets_errorText ''HTTP 401 Unauthorized''
     = ''Authentication failed. Check your email and API token in .env''"
  "JiraTickets_errorText ''HTTP 403 Forbidden''
     = ''Authentication failed. Check your email and API token in .env''"
  by code_simp+

lemma case_inputs_sentry:
  "SentryIssues_errorText ''SENTRY_AUTH_TOKEN missing''
     = ''Sentry not configured. Set SENTRY_AUTH_TOKEN in .env''"
  "SentryIssues_errorText ''sentry_auth_token missing'' = ''Error loading issues''"
  by code_simp+

lemma jira_failure_shown:
  "JiraTickets_template (updateTickets (Rejected errText) s) =
     (if String_includes (toLowerCase errText) ''loading'' then Message ''Loading Jira tickets...''
      else if errText = [] then Message ''No tickets found''
      else if String_includes errText ''environment variable'' \<or> String_includes errText ''JIRA_''
      then Message ''Jira not configured. Set JIRA_EMAIL and JIRA_API_TOKEN in .env''
      else if String_includes errText ''401'' \<or> String_includes errText ''403''
      then Message ''Authentication failed. Check your email and API token in .env''
      else Message ''Error loading tickets'')"
  unfolding jira_failure_template JiraTickets_errorText_def by simp

lemma sentry_failure_shown:
  "SentryIssues_template (updateIssues (Rejected errText) s) =
     (if String_includes (toLowerCase errText) ''loading'' then Message ''Loading Sentry issues...''
      else if errText = [] then Message ''No issues found''
      else if String_includes errText ''SENTRY_AUTH_TOKEN''
      then Message ''Sentry not configured. Set SENTRY_AUTH_TOKEN in .env''
      else Message ''Error loading issues'')"
  unfolding sentry_failure_template SentryIssues_errorText_def by simp

lemma jira_lowered_flag:
  "jira_isLoading (updateTickets (Rejected (toLowerCase errText)) s)
     = jira_isLoading (updateTickets (Rejected errText) s)"
  by (simp add: toLowerCase_idem)

lemma sentry_lowered_flag:
  "sentry_isLoading (updateIssues (Rejected (toLowerCase errText)) s)
     = sentry_isLoading (updateIssues (Rejected errText) s)"
  by (simp add: toLowerCase_idem)

lemma jira_examples:
  "JiraTickets_template (updateTickets (Rejected ''JIRA_API_TOKEN not set'') s)
     = Message ''Jira not configured. Set JIRA_EMAIL and JIRA_API_TOKEN in .env''"
  "JiraTickets_template (updateTickets (Rejected ''environment variable missing'') s)
     = Message ''Jira not configured. Set JIRA_EMAIL and JIRA_API_TOKEN in .env''"
  "JiraTickets_template (updateTickets (Rejected ''Environment Variable missing'') s)
     = Message ''Error loading tickets''"
  "JiraTickets_template (updateTickets (Rejected ''HTTP 401 Unauthorized'') s)
     = Message ''Authentication failed. Check your email and API token in .env''"
  "JiraTickets_template (updateTickets (Rejected ''HTTP 403 Forbidden'') s)
     = Message ''Authentication failed. Check your email and API token in .env''"
  using case_inputs_loading case_inputs_jira
  by (simp_all add: jira_error_shown del: updateTickets.simps)

lemma sentry_examples:
  "SentryIssues_template (updateIssues (Rejected ''SENTRY_AUTH_TOKEN missing'') s)
     = Message ''Sentry not configured. Set SENTRY_AUTH_TOKEN in .env''"
  "SentryIssues_template (updateIssues (Rejected ''sentry_auth_token missing'') s)
     = Message ''Error loading issues''"
  using case_inputs_loading case_inputs_sentry
  by (simp_all add: sentry_error_shown del: updateIssues.simps)

text \<open>
  C10. In the Jira and Sentry components a failed fetch keeps the loading state exactly
  when the lower-cased message contains \<open>loading\<close>; lower-casing the message first
  changes nothing, and the messages \<open>LOADING\<close> and \<open>Still Loading data\<close> keep both
  components loading. Every other marker is searched in the message as it is: for every
  failure message the text shown is decided by whether the original message contains
  \<open>environment variable\<close> or \<open>JIRA_\<close>, then \<open>401\<close> or \<open>403\<close> (Jira), or
  \<open>SENTRY_AUTH_TOKEN\<close> (Sentry). So \<open>JIRA_API_TOKEN not set\<close> and
  \<open>environment variable missing\<close> show the Jira configuration guidance while
  \<open>jira_api_token missing\<close> and \<open>Environment Variable missing\<close> show the generic
  error text; \<open>SENTRY_AUTH_TOKEN missing\<close> shows the Sentry configuration guidance
  while \<open>sentry_auth_token missing\<close> shows the generic one; messages with \<open>401\<close> or
  \<open>403\<close> show the authentication guidance.
\<close>

theorem loading_marker_ignores_case:
  "jira_isLoading (updateTickets (Rejected errText) s)
     = String_includes (toLowerCase errText) ''loading''
   \<and> sentry_isLoading (updateIssues (Rejected errText) s')
     = String_includes (toLowerCase errText) ''loading''
   \<and> jira_isLoading (updateTickets (Rejected (toLowerCase errText)) s)
     = jira_isLoading (updateTickets (Rejected errText) s)
   \<and> sentry_isLoading (updateIssues (Rejected (toLowerCase errText)) s')
     = sentry_isLoading (updateIssues (Rejected errText) s')
   \<and> JiraTickets_template (updateTickets (Rejected errText) s) =
     (if String_includes (toLowerCase errText) ''loading'' then Message ''Loading Jira tickets...''
      else if errText = [] then Message ''No tickets found''
      else if String_includes errText ''environment variable'' \<or> String_includes errText ''JIRA_''
      then Message ''Jira not configured. Set JIRA_EMAIL and JIRA_API_TOKEN in .env''
      else if String_includes errText ''401'' \<or> String_includes errText ''403''
      then Message ''Authentication failed. Check your email and API token in .env''
      else Message ''Error loading tickets'')
   \<and> SentryIssues_template (updateIssues (Rejected errText) s') =
     (if String_includes (toLowerCase errText) ''loading'' then Message ''Loading Sentry issues...''
      else if errText = [] then Message ''No issues found''
      else if String_includes errText ''SENTRY_AUTH_TOKEN''
      then Message ''Sentry not configured. Set SENTRY_AUTH_TOKEN in .env''
      else Message ''Error loading issues'')
   \<and> JiraTickets_template (updateTickets (Rejected ''LOADING'') s)
     = Message ''Loading Jira tickets...''
   \<and> SentryIssues_template (updateIssues (Rejected ''LOADING'') s')
     = Message ''Loading Sentry issues...''
   \<and> JiraTickets_template (updateTickets (Rejected ''Still Loading data'') s)
     = Message ''Loading Jira tickets...''
   \<and> SentryIssues_template (updateIssues (Rejected ''Still Loading data'') s')
     = Message ''Loading Sentry issues...''
   \<and> \<not> String_includes ''jira_api_token missing'' ''JIRA_''
   \<and> JiraTickets_classify ''jira_api_token missing'' = Unknown
   \<and> JiraTickets_template (updateTickets (Rejected ''jira_api_token missing'') s)
     = Message ''Error loading tickets''
   \<and> JiraTickets_template (updateTickets (Rejected ''JIRA_API_TOKEN not set'') s)
     = Message ''Jira not configured. Set JIRA_EMAIL and JIRA_API_TOKEN in .env''
   \<and> JiraTickets_template (updateTickets (Rejected ''environment variable missing'') s)
     = Message ''Jira not configured. Set JIRA_EMAIL and JIRA_API_TOKEN in .env''
   \<and> JiraTickets_template (updateTickets (Rejected ''Environment Variable missing'') s)
     = Message ''Error loading tickets''
   \<and> JiraTickets_template (updateTickets (Rejected ''HTTP 401 Unauthorized'') s)
     = Message ''Authentication failed. Check your email and API token in .env''
   \<and> JiraTickets_template (updateTickets (Rejected ''HTTP 403 Forbidden'') s)
     = Message ''Authentication failed. Check your email and API token in .env''
   \<and> SentryIssues_template (updateIssues (Rejected ''SENTRY_AUTH_TOKEN missing'') s')
     = Message ''Sentry not configured. Set SENTRY_AUTH_TOKEN in .env''
   \<and> SentryIssues_template (updateIssues (Rejected ''sentry_auth_token missing'') s')
     = Message ''Error loading issues''"
proof -
  have a: "jira_isLoading (updateTickets (Rejected errText) s)
      = String_includes (toLowerCase errText) ''loading''"
    by simp
  have b: "sentry_isLoading (updateIssues (Rejected errText) s')
      = String_includes (toLowerCase errText) ''loading''"
    by simp
  have c: "JiraTickets_template (updateTickets (Rejected ''LOADING'') s)
      = Message ''Loading Jira tickets...''"
    by (simp only: jira_failure_template upper_LOADING if_True)
  have d: "SentryIssues_template (updateIssues (Rejected ''LOADING'') s')
      = Message ''Loading Sentry issues...''"
    by (simp only: sentry_failure_template upper_LOADING if_True)
  have c': "JiraTickets_template (updateTickets (Rejected ''Still Loading data'') s)
      = Message ''Loading Jira tickets...''"
    by (simp only: jira_failure_template mixed_Loading if_True)
  have d': "SentryIssues_template (updateIssues (Rejected ''Still Loading data'') s')
      = Message ''Loading Sentry issues...''"
    by (simp only: sentry_failure_template mixed_Loading if_True)
  have e: "JiraTickets_template (updateTickets (Rejected ''jira_api_token missing'') s)
      = Message ''Error loading tickets''"
    unfolding jira_failure_template using lower_jira_token by simp
  show ?thesis
    by (intro conjI a b jira_lowered_flag sentry_lowered_flag jira_failure_shown
        sentry_failure_shown c d c' d' lower_jira_token(2) jira_token_unknown e
        jira_examples sentry_examples)
qed

lemma marker_nonempty:
  "String_includes m ''environment variable'' \<or> String_includes m ''JIRA_''
     \<or> String_includes m ''401'' \<or> String_includes m ''403''
     \<or> String_includes m ''SENTRY_AUTH_TOKEN'' \<Longrightarrow> m \<noteq> []"
  by (auto dest: includes_nonempty)

lemma jira_loading_shown:
  "String_includes (toLowerCase m) ''loading'' \<Longrightarrow>
   JiraTickets_template (updateTickets (Rejected m) s) = Message ''Loading Jira tickets...''"
  unfolding jira_failure_template by simp

lemma sentry_loading_shown:
  "String_includes (toLowerCase m) ''loading'' \<Longrightarrow>
   SentryIssues_template (updateIssues (Rejected m) s) = Message ''Loading Sentry issues...''"
  unfolding sentry_failure_template by simp

section \<open>Precedence of the failure markers\<close>

text \<open>
  C3, as the components have it. For a failed fetch of the Jira component the test for
  \<open>loading\<close> in the lower-cased message comes first and keeps the component loading;
  otherwise a configuration marker (\<open>environment variable\<close>, \<open>JIRA_\<close>) gives the
  configuration guidance; otherwise a status code \<open>401\<close> or \<open>403\<close> gives the
  authentication guidance, whatever else the message says. The Sentry component tests for
  \<open>loading\<close> first and then for \<open>SENTRY_AUTH_TOKEN\<close>.
\<close>

theorem jira_sentry_marker_precedence:
  "(String_includes (toLowerCase m) ''loading'' \<longrightarrow>
      JiraTickets_classify m = StillLoading
      \<and> JiraTickets_template (updateTickets (Rejected m) s) = Message ''Loading Jira tickets...'')
   \<and> (\<not> String_includes (toLowerCase m) ''loading''
       \<and> (String_includes m ''environment variable'' \<or> String_includes m ''JIRA_'') \<longrightarrow>
      JiraTickets_classify m = NotConfigured
      \<and> JiraTickets_template (updateTickets (Rejected m) s)
          = Message ''Jira not configured. Set JIRA_EMAIL and JIRA_API_TOKEN in .env'')
   \<and> (\<not> String_includes (toLowerCase m) ''loading''
       \<and> \<not> String_includes m ''environment variable'' \<and> \<not> String_includes m ''JIRA_''
       \<and> (String_includes m ''401'' \<or> String_includes m ''403'') \<longrightarrow>
      JiraTickets_classify m = AuthFailure
      \<and> JiraTickets_template (updateTickets (Rejected m) s)
          = Message ''Authentication failed. Check your email and API token in .env'')
   \<and> (String_includes (toLowerCase m) ''loading'' \<longrightarrow>
      SentryIssues_classify m = StillLoading
      \<and> SentryIssues_template (updateIssues (Rejected m) s') = Message ''Loading Sentry issues...'')
   \<and> (\<not> String_includes (toLowerCase m) ''loading'' \<and> String_includes m ''SENTRY_AUTH_TOKEN'' \<longrightarrow>
      SentryIssues_classify m = NotConfigured
      \<and> SentryIssues_template (updateIssues (Rejected m) s')
          = Message ''Sentry not configured. Set SENTRY_AUTH_TOKEN in .env'')"
proof (intro conjI impI)
  assume "String_includes (toLowerCase m) ''loading''"
  then show "JiraTickets_classify m = StillLoading"
    by (simp add: JiraTickets_classify_def)
next
  assume "String_includes (toLowerCase m) ''loading''"
  then show "JiraTickets_template (updateTickets (Rejected m) s) = Message ''Loading Jira tickets...''"
    by (rule jira_loading_shown)
next
  assume "\<not> String_includes (toLowerCase m) ''loading''
       \<and> (String_includes m ''environment variable'' \<or> String_includes m ''JIRA_'')"
  then show "JiraTickets_classify m = NotConfigured"
    by (simp add: JiraTickets_classify_def)
next
  assume h: "\<not> String_includes (toLowerCase m) ''loading''
       \<and> (String_includes m ''environment variable'' \<or> String_includes m ''JIRA_'')"
  then have "m \<noteq> []" using marker_nonempty [of m] by blast
  with h show "JiraTickets_template (updateTickets (Rejected m) s)
          = Message ''Jira not configured. Set JIRA_EMAIL and JIRA_API_TOKEN in .env''"
    by (simp add: jira_error_shown JiraTickets_errorText_def del: updateTickets.simps)
next
  assume "\<not> String_includes (toLowerCase m) ''loading''
       \<and> \<not> String_includes m ''environment variable'' \<and> \<not> String_includes m ''JIRA_''
       \<and> (String_includes m ''401'' \<or> String_includes m ''403'')"
  then show "JiraTickets_classify m = AuthFailure"
    by (simp add: JiraTickets_classify_def)
next
  assume h: "\<not> String_includes (toLowerCase m) ''loading''
       \<and> \<not> String_includes m ''environment variable'' \<and> \<not> String_includes m ''JIRA_''
       \<and> (String_includes m ''401'' \<or> String_includes m ''403'')"
  then have "m \<noteq> []" using marker_nonempty [of m] by blast
  with h show "JiraTickets_template (updateTickets (Rejected m) s)
          = Message ''Authentication failed. Check your email and API token in .env''"
    by (simp add: jira_error_shown JiraTickets_errorText_def del: updateTickets.simps)
next
  assume "String_includes (toLowerCase m) ''loading''"
  then show "SentryIssues_classify m = StillLoading"
    by (simp add: SentryIssues_classify_def)
next
  assume "String_includes (toLowerCase m) ''loading''"
  then show "SentryIssues_template (updateIssues (Rejected m) s') = Message ''Loading Sentry issues...''"
    by (rule sentry_loading_shown)
next
  assume "\<not> String_includes (toLowerCase m) ''loading'' \<and> String_includes m ''SENTRY_AUTH_TOKEN''"
  then show "SentryIssues_classify m = NotConfigured"
    by (simp add: SentryIssues_classify_def)
next
  assume h: "\<not> String_includes (toLowerCase m) ''loading'' \<and> String_includes m ''SENTRY_AUTH_TOKEN''"
  then have "m \<noteq> []" using marker_nonempty [of m] by blast
  with h show "SentryIssues_template (updateIssues (Rejected m) s')
          = Message ''Sentry not configured. Set SENTRY_AUTH_TOKEN in .env''"
    by (simp add: sentry_error_shown SentryIssues_errorText_def del: updateIssues.simps)
qed

lemma precedence_inputs:
  "String_includes (toLowerCase ''JIRA_API_TOKEN environment variable is loading'') ''loading''"
  "String_includes ''JIRA_API_TOKEN environment variable is loading'' ''JIRA_''"
  "\<not> String_includes (toLowerCase ''JIRA_API_TOKEN not set (401)'') ''loading''"
  "String_includes ''JIRA_API_TOKEN not set (401)'' ''JIRA_''"
  "\<not> String_includes (toLowerCase ''HTTP 401: network error'') ''loading''"
  "\<not> String_includes ''HTTP 401: network error'' ''environment variable''"
  "\<not> String_includes ''HTTP 401: network error'' ''JIRA_''"
  "String_includes ''HTTP 401: network error'' ''401''"
  "\<not> String_includes (toLowerCase ''SENTRY_AUTH_TOKEN is not set'') ''loading''"
  "String_includes ''SENTRY_AUTH_TOKEN is not set'' ''SENTRY_AUTH_TOKEN''"
  by code_simp+

theorem jira_sentry_marker_precedence_witness:
  "JiraTickets_classify ''JIRA_API_TOKEN environment variable is loading'' = StillLoading
   \<and> JiraTickets_classify ''JIRA_API_TOKEN not set (401)'' = NotConfigured
   \<and> JiraTickets_classify ''HTTP 401: network error'' = AuthFailure
   \<and> JiraTickets_template (updateTickets (Rejected ''HTTP 401: network error'')
        (JiraTickets_init :: nat JiraTickets))
      = Message ''Authentication failed. Check your email and API token in .env''
   \<and> SentryIssues_classify ''SENTRY_AUTH_TOKEN is not set'' = NotConfigured"
proof -
  have a: "JiraTickets_classify ''JIRA_API_TOKEN environment variable is loading'' = StillLoading"
    using jira_sentry_marker_precedence [where m = "''JIRA_API_TOKEN environment variable is loading''" and s = "JiraTickets_init :: nat JiraTickets" and s' = "SentryIssues_init :: nat SentryIssues"] precedence_inputs(1)
    by simp
  have b: "JiraTickets_classify ''JIRA_API_TOKEN not set (401)'' = NotConfigured"
    using jira_sentry_marker_precedence [where m = "''JIRA_API_TOKEN not set (401)''" and s = "JiraTickets_init :: nat JiraTickets" and s' = "SentryIssues_init :: nat SentryIssues"] precedence_inputs(3,4)
    by simp
  have c: "JiraTickets_classify ''HTTP 401: network error'' = AuthFailure
     \<and> JiraTickets_template (updateTickets (Rejected ''HTTP 401: network error'')
        (JiraTickets_init :: nat JiraTickets))
      = Message ''Authentication failed. Check your email and API token in .env''"
    using jira_sentry_marker_precedence [where m = "''HTTP 401: network error''" and s = "JiraTickets_init :: nat JiraTickets" and s' = "SentryIssues_init :: nat SentryIssues"]
      precedence_inputs(5,6,7,8)
    by (simp del: updateTickets.simps)
  have d: "SentryIssues_classify ''SENTRY_AUTH_TOKEN is not set'' = NotConfigured"
    using jira_sentry_marker_precedence [where m = "''SENTRY_AUTH_TOKEN is not set''" and s = "JiraTickets_init :: nat JiraTickets" and s' = "SentryIssues_init :: nat SentryIssues"] precedence_inputs(9,10)
    by simp
  from a b c d show ?thesis by (intro conjI) simp_all
qed

text \<open>
  The Jira message \<open>JIRA_API_TOKEN environment variable is loading\<close> contains both
  configuration markers and the word \<open>loading\<close>: the component keeps loading and shows
  no configuration guidance.
\<close>

theorem loading_beats_not_configured:
  "String_includes ''JIRA_API_TOKEN environment variable is loading'' ''JIRA_''
   \<and> String_includes ''JIRA_API_TOKEN environment variable is loading'' ''environment variable''
   \<and> JiraTickets_classify ''JIRA_API_TOKEN environment variable is loading'' \<noteq> NotConfigured
   \<and> JiraTickets_template (updateTickets
        (Rejected ''JIRA_API_TOKEN environment variable is loading'')
        (JiraTickets_init :: nat JiraTickets))
      = Message ''Loading Jira tickets...''"
  by code_simp

section \<open>Messages without a marker\<close>

text \<open>
  C4 at the empty failure message. The empty message contains no marker and is
  classified \<open>Unknown\<close>, but the templates test the stored error for truthiness, so the
  Jira, Sentry and Docker components show their empty-list text instead of an error text.
\<close>

theorem empty_failure_message_shows_no_error:
  "JiraTickets_classify [] = Unknown
   \<and> JiraTickets_template (updateTickets (Rejected []) s) = Message ''No tickets found''
   \<and> SentryIssues_classify [] = Unknown
   \<and> SentryIssues_template (updateIssues (Rejected []) s') = Message ''No issues found''
   \<and> DockerContainers_template (updateContainers (Rejected []) d) = Message ''No running containers''"
proof -
  have l: "\<not> String_includes (toLowerCase []) ''loading''" by code_simp
  have a: "JiraTickets_classify [] = Unknown" by code_simp
  have b: "SentryIssues_classify [] = Unknown" by code_simp
  have c: "JiraTickets_template (updateTickets (Rejected []) s) = Message ''No tickets found''"
    unfolding jira_failure_template using l by simp
  have d: "SentryIssues_template (updateIssues (Rejected []) s') = Message ''No issues found''"
    unfolding sentry_failure_template using l by simp
  have e: "DockerContainers_template (updateContainers (Rejected []) d) = Message ''No running containers''"
    by (simp add: DockerContainers_template_def truthy_def)
  from a b c d e show ?thesis by blast
qed

text \<open>A non-empty message without a marker does show the generic error text.\<close>

lemma unknown_message_shows_generic_error:
  "m \<noteq> [] \<Longrightarrow> JiraTickets_classify m = Unknown \<Longrightarrow>
   JiraTickets_template (updateTickets (Rejected m) s) = Message ''Error loading tickets''"
  by (simp add: JiraTickets_classify_def jira_error_shown JiraTickets_errorText_def
      del: updateTickets.simps split: if_splits)

lemma applyAll_snoc: "applyAll update s (outs @ [out]) = update out (applyAll update s outs)"
  by (simp add: applyAll_def)

lemma applyAll_Nil: "applyAll update s [] = s"
  by (simp add: applyAll_def)

lemma afterFailures_snoc:
  "afterFailures update s (msgs @ [m]) = update (Rejected m) (afterFailures update s msgs)"
  by (simp add: afterFailures_def applyAll_snoc)

lemma afterFailures_Nil: "afterFailures update s [] = s"
  by (simp add: afterFailures_def applyAll_Nil)

lemma health_failures_keep: "services (afterFailures updateHealth s msgs) = services s"
  by (induction msgs rule: rev_induct) (simp_all add: afterFailures_Nil afterFailures_snoc)

lemma cpu_failures_keep: "cpuUsage (afterFailures updateCpuUsage s msgs) = cpuUsage s"
  by (induction msgs rule: rev_induct) (simp_all add: afterFailures_Nil afterFailures_snoc)

lemma ram_failures_keep: "ramUsage (afterFailures updateRamUsage s msgs) = ramUsage s"
  by (induction msgs rule: rev_induct) (simp_all add: afterFailures_Nil afterFailures_snoc)

lemma health_failures_last:
  "msgs \<noteq> [] \<Longrightarrow> health_error (afterFailures updateHealth s msgs) = Some (last msgs)
     \<and> \<not> health_isLoading (afterFailures updateHealth s msgs)"
  by (cases msgs rule: rev_cases) (simp_all add: afterFailures_snoc)

lemma cpu_failures_last:
  "msgs \<noteq> [] \<Longrightarrow> cpu_loadError (afterFailures updateCpuUsage s msgs) = Some (last msgs)
     \<and> \<not> cpu_isLoading (afterFailures updateCpuUsage s msgs)"
  by (cases msgs rule: rev_cases) (simp_all add: afterFailures_snoc)

lemma ram_failures_last:
  "msgs \<noteq> [] \<Longrightarrow> ram_loadError (afterFailures updateRamUsage s msgs) = Some (last msgs)
     \<and> \<not> ram_isLoading (afterFailures updateRamUsage s msgs)"
  by (cases msgs rule: rev_cases) (simp_all add: afterFailures_snoc)

lemma jira_failures_tickets:
  "tickets (afterFailures updateTickets s msgs) =
     (if list_all (\<lambda>m. String_includes (toLowerCase m) ''loading'') msgs then tickets s else [])"
  by (induction msgs rule: rev_induct) (simp_all add: afterFailures_Nil afterFailures_snoc)

lemma sentry_failures_issues:
  "issues (afterFailures updateIssues s msgs) =
     (if list_all (\<lambda>m. String_includes (toLowerCase m) ''loading'') msgs then issues s else [])"
  by (induction msgs rule: rev_induct) (simp_all add: afterFailures_Nil afterFailures_snoc)

lemma docker_failures_containers:
  "msgs \<noteq> [] \<Longrightarrow> containers (afterFailures updateContainers s msgs) = []"
  by (cases msgs rule: rev_cases) (simp_all add: afterFailures_snoc)

lemma spotify_failures_track:
  "msgs \<noteq> [] \<Longrightarrow> track (afterFailures updateTrack s msgs) = None"
  by (cases msgs rule: rev_cases) (simp_all add: afterFailures_snoc)

lemma old_failures_tickets:
  "msgs \<noteq> [] \<Longrightarrow> old_tickets (afterFailures updateTicketsOld s msgs) = []"
  by (cases msgs rule: rev_cases) (simp_all add: afterFailures_snoc)

section \<open>The payload across failed fetches\<close>

text \<open>
  C1, as the components have it. After a successful fetch and then any non-empty sequence
  of failed fetches:
  \<^item> the service-health, CPU and RAM components still hold the payload of the successful
    fetch, hold the last failure message as their error and are not loading;
  \<^item> the Jira and Sentry components hold that payload only if every failure message
    contained \<open>loading\<close> (in any letter case), and the empty list otherwise;
  \<^item> the Docker, Spotify and earlier Jira components hold the empty list (no track).
\<close>

theorem payload_after_failures:
  assumes "msgs \<noteq> []"
  shows "services (afterFailures updateHealth (updateHealth (Resolved dh) sh) msgs) = dh
     \<and> health_error (afterFailures updateHealth (updateHealth (Resolved dh) sh) msgs) = Some (last msgs)
     \<and> \<not> health_isLoading (afterFailures updateHealth (updateHealth (Resolved dh) sh) msgs)
     \<and> cpuUsage (afterFailures updateCpuUsage (updateCpuUsage (Resolved dc) sc) msgs) = dc
     \<and> cpu_loadError (afterFailures updateCpuUsage (updateCpuUsage (Resolved dc) sc) msgs) = Some (last msgs)
     \<and> \<not> cpu_isLoading (afterFailures updateCpuUsage (updateCpuUsage (Resolved dc) sc) msgs)
     \<and> ramUsage (afterFailures updateRamUsage (updateRamUsage (Resolved dr) sr) msgs) = dr
     \<and> ram_loadError (afterFailures updateRamUsage (updateRamUsage (Resolved dr) sr) msgs) = Some (last msgs)
     \<and> \<not> ram_isLoading (afterFailures updateRamUsage (updateRamUsage (Resolved dr) sr) msgs)
     \<and> tickets (afterFailures updateTickets (updateTickets (Resolved dj) sj) msgs)
         = (if list_all (\<lambda>m. String_includes (toLowerCase m) ''loading'') msgs then dj else [])
     \<and> issues (afterFailures updateIssues (updateIssues (Resolved ds) ss) msgs)
         = (if list_all (\<lambda>m. String_includes (toLowerCase m) ''loading'') msgs then ds else [])
     \<and> containers (afterFailures updateContainers (updateContainers (Resolved dd) sd) msgs) = []
     \<and> track (afterFailures updateTrack (updateTrack (Resolved dt) st) msgs) = None
     \<and> old_tickets (afterFailures updateTicketsOld (updateTicketsOld (Resolved dold) so) msgs) = []"
  using assms
  by (simp add: health_failures_keep cpu_failures_keep ram_failures_keep health_failures_last
      cpu_failures_last ram_failures_last jira_failures_tickets sentry_failures_issues
      docker_failures_containers spotify_failures_track old_failures_tickets
      del: updateHealth.simps updateCpuUsage.simps updateRamUsage.simps updateTickets.simps
        updateIssues.simps updateContainers.simps updateTrack.simps updateTicketsOld.simps)
    simp


lemma failure_inputs:
  "\<not> list_all (\<lambda>m. String_includes (toLowerCase m) ''loading'') [''timeout'', ''connection refused'']"
  by code_simp

theorem payload_after_failures_witness:
  "services (afterFailures updateHealth (updateHealth (Resolved
       [\<lparr>name = ''api'', url = ''https://api.example.org'', is_up = True, status_code = Some 200,
         latency_ms = Some 12, checked_at_ms = 1700000000000, service_error = None\<rparr>]) HealthUp_init)
       [''timeout'', ''connection refused''])
     = [\<lparr>name = ''api'', url = ''https://api.example.org'', is_up = True, status_code = Some 200,
         latency_ms = Some 12, checked_at_ms = 1700000000000, service_error = None\<rparr>]
   \<and> cpuUsage (afterFailures updateCpuUsage (updateCpuUsage (Resolved (42::nat)) (CpuUsage_init 0))
       [''timeout'', ''connection refused'']) = 42
   \<and> cpu_loadError (afterFailures updateCpuUsage (updateCpuUsage (Resolved (42::nat)) (CpuUsage_init 0))
       [''timeout'', ''connection refused'']) = Some ''connection refused''
   \<and> ramUsage (afterFailures updateRamUsage (updateRamUsage (Resolved (17::nat)) (RamUsage_init 0))
       [''timeout'', ''connection refused'']) = 17
   \<and> tickets (afterFailures updateTickets (updateTickets (Resolved [7::nat]) JiraTickets_init)
       [''timeout'', ''connection refused'']) = []
   \<and> issues (afterFailures updateIssues (updateIssues (Resolved [8::nat]) SentryIssues_init)
       [''timeout'', ''connection refused'']) = []
   \<and> containers (afterFailures updateContainers (updateContainers (Resolved [9::nat]) DockerContainers_init)
       [''timeout'', ''connection refused'']) = []
   \<and> track (afterFailures updateTrack (updateTrack (Resolved (5::nat)) Spotify_init)
       [''timeout'', ''connection refused'']) = None
   \<and> old_tickets (afterFailures updateTicketsOld (updateTicketsOld (Resolved [6::nat]) JiraTicketsOld_init)
       [''timeout'', ''connection refused'']) = []"
proof -
  have ne: "[''timeout'', ''connection refused''] \<noteq> []" by simp
  note r = payload_after_failures [OF ne, where dh = "[\<lparr>name = ''api'', url = ''https://api.example.org'', is_up = True,
         status_code = Some 200, latency_ms = Some 12, checked_at_ms = 1700000000000,
         service_error = None\<rparr>]" and sh = HealthUp_init
      and dc = "42::nat" and sc = "CpuUsage_init 0" and dr = "17::nat" and sr = "RamUsage_init 0"
      and dj = "[7::nat]" and sj = JiraTickets_init and ds = "[8::nat]" and ss = SentryIssues_init
      and dd = "[9::nat]" and sd = DockerContainers_init and dt = "5::nat" and st = Spotify_init
      and dold = "[6::nat]" and so = JiraTicketsOld_init]
  from r failure_inputs show ?thesis
    by (simp del: updateHealth.simps updateCpuUsage.simps updateRamUsage.simps updateTickets.simps
        updateIssues.simps updateContainers.simps updateTrack.simps updateTicketsOld.simps)
qed

text \<open>
  One failed fetch without the word \<open>loading\<close> after a successful one: the Jira
  component's tickets and the Docker component's containers are gone.
\<close>

theorem failure_discards_tickets:
  "tickets (updateTickets (Rejected ''connection refused'')
      (updateTickets (Resolved [7::nat]) JiraTickets_init)) = []
   \<and> tickets (updateTickets (Rejected ''connection refused'')
      (updateTickets (Resolved [7::nat]) JiraTickets_init)) \<noteq> [7]
   \<and> containers (updateContainers (Rejected ''connection refused'')
      (updateContainers (Resolved [9::nat]) DockerContainers_init)) = []"
  by code_simp

lemma cpu_never_loading: "\<not> cpu_isLoading (applyAll updateCpuUsage (updateCpuUsage out s) outs)"
proof (induction outs rule: rev_induct)
  case Nil
  show ?case by (cases out) (simp_all add: applyAll_Nil)
next
  case (snoc x xs)
  show ?case by (cases x) (simp_all add: applyAll_snoc)
qed

lemma ram_never_loading: "\<not> ram_isLoading (applyAll updateRamUsage (updateRamUsage out s) outs)"
proof (induction outs rule: rev_induct)
  case Nil
  show ?case by (cases out) (simp_all add: applyAll_Nil)
next
  case (snoc x xs)
  show ?case by (cases x) (simp_all add: applyAll_snoc)
qed

lemma health_never_loading: "\<not> health_isLoading (applyAll updateHealth (updateHealth out s) outs)"
proof (induction outs rule: rev_induct)
  case Nil
  show ?case by (cases out) (simp_all add: applyAll_Nil)
next
  case (snoc x xs)
  show ?case by (cases x) (simp_all add: applyAll_snoc)
qed

section \<open>The loading flag\<close>

text \<open>
  C2, as the components have it. In the CPU, RAM and service-health components the
  loading flag is off after the first settled fetch and stays off whatever the later
  outcomes are. In the Jira and Sentry components the flag after a settled fetch is on
  exactly when that fetch failed with a message containing \<open>loading\<close> (in any letter
  case), also after earlier successful fetches.
\<close>

theorem loading_flag_after_fetch:
  "\<not> cpu_isLoading (applyAll updateCpuUsage (updateCpuUsage outc sc) outsc)
   \<and> \<not> ram_isLoading (applyAll updateRamUsage (updateRamUsage outr sr) outsr)
   \<and> \<not> health_isLoading (applyAll updateHealth (updateHealth outh sh) outsh)
   \<and> jira_isLoading (updateTickets outj sj)
       = (case outj of Resolved d \<Rightarrow> False
          | Rejected m \<Rightarrow> String_includes (toLowerCase m) ''loading'')
   \<and> sentry_isLoading (updateIssues outs ss)
       = (case outs of Resolved d \<Rightarrow> False
          | Rejected m \<Rightarrow> String_includes (toLowerCase m) ''loading'')"
proof -
  have j: "jira_isLoading (updateTickets outj sj)
       = (case outj of Resolved d \<Rightarrow> False
          | Rejected m \<Rightarrow> String_includes (toLowerCase m) ''loading'')"
    by (cases outj) simp_all
  have s: "sentry_isLoading (updateIssues outs ss)
       = (case outs of Resolved d \<Rightarrow> False
          | Rejected m \<Rightarrow> String_includes (toLowerCase m) ''loading'')"
    by (cases outs) simp_all
  from j s cpu_never_loading ram_never_loading health_never_loading show ?thesis by blast
qed

text \<open>
  The Jira component after a successful fetch is not loading; a failure whose message
  contains \<open>loading\<close> then puts it back into the loading state.
\<close>

theorem jira_returns_to_loading:
  "\<not> jira_isLoading (updateTickets (Resolved [7::nat]) JiraTickets_init)
   \<and> jira_isLoading (updateTickets (Rejected ''Jira cache is still loading'')
        (updateTickets (Resolved [7::nat]) JiraTickets_init))
   \<and> JiraTickets_template (updateTickets (Rejected ''Jira cache is still loading'')
        (updateTickets (Resolved [7::nat]) JiraTickets_init)) = Message ''Loading Jira tickets...''"
  by code_simp

lemma Math_max_Max: "Math_max x xs = Max (set (x # xs))"
proof (induction xs arbitrary: x)
  case Nil
  show ?case by simp
next
  case (Cons y ys)
  have "Max (set (x # y # ys)) = Max (insert (max x y) (set ys))"
    by (cases "ys = []") (simp_all add: max.assoc)
  with Cons show ?case by simp
qed

lemma lastCheckedLabel_Cons:
  "svcs \<noteq> [] \<Longrightarrow> lastCheckedLabel svcs = formatCheckedAt (Max (set (map checked_at_ms svcs)))"
  by (cases svcs) (simp_all add: lastCheckedLabel_def Math_max_Max)

lemma all_zero_Max:
  "svcs \<noteq> [] \<Longrightarrow> list_all (\<lambda>s. checked_at_ms s = 0) svcs \<Longrightarrow> Max (set (map checked_at_ms svcs)) = 0"
proof -
  assume ne: "svcs \<noteq> []" and z: "list_all (\<lambda>s. checked_at_ms s = 0) svcs"
  then have "set (map checked_at_ms svcs) = {0}"
    by (cases svcs) (auto simp: list_all_iff)
  then show ?thesis by simp
qed

lemma some_positive_Max:
  "list_ex (\<lambda>s. 0 < checked_at_ms s) svcs \<Longrightarrow> 0 < Max (set (map checked_at_ms svcs))"
proof -
  assume "list_ex (\<lambda>s. 0 < checked_at_ms s) svcs"
  then obtain s where s: "s \<in> set svcs" "0 < checked_at_ms s"
    by (auto simp: list_ex_iff)
  then have "checked_at_ms s \<le> Max (set (map checked_at_ms svcs))"
    by (intro Max_ge) auto
  with s show ?thesis by linarith
qed

section \<open>The last-checked label\<close>

text \<open>
  C5. The label over no services (as before any fetch has settled) and over services whose
  timestamps are all 0 is \<open>n/a\<close>; the label is never the time of the instant 0; over
  services of which one has a positive timestamp it is the time of the largest
  \<open>checked_at_ms\<close>.
\<close>

theorem last_checked_label:
  "lastCheckedLabel [] = NotAvailable
   \<and> lastCheckedLabel (services HealthUp_init) = NotAvailable
   \<and> (list_all (\<lambda>s. checked_at_ms s = 0) svcs \<longrightarrow> lastCheckedLabel svcs = NotAvailable)
   \<and> lastCheckedLabel svcs \<noteq> TimeOfDay 0
   \<and> (list_ex (\<lambda>s. 0 < checked_at_ms s) svcs \<longrightarrow>
        lastCheckedLabel svcs = TimeOfDay (Max (set (map checked_at_ms svcs))))"
proof (intro conjI impI)
  show "lastCheckedLabel [] = NotAvailable" by (simp add: lastCheckedLabel_def)
  show "lastCheckedLabel (services HealthUp_init) = NotAvailable"
    by (simp add: lastCheckedLabel_def HealthUp_init_def)
  show "lastCheckedLabel svcs \<noteq> TimeOfDay 0"
    by (cases svcs) (simp_all add: lastCheckedLabel_def formatCheckedAt_def)
next
  assume z: "list_all (\<lambda>s. checked_at_ms s = 0) svcs"
  show "lastCheckedLabel svcs = NotAvailable"
  proof (cases "svcs = []")
    case True
    then show ?thesis by (simp add: lastCheckedLabel_def)
  next
    case False
    from lastCheckedLabel_Cons [OF False] all_zero_Max [OF False z] show ?thesis
      by (simp add: formatCheckedAt_def)
  qed
next
  assume p: "list_ex (\<lambda>s. 0 < checked_at_ms s) svcs"
  then have "svcs \<noteq> []" by auto
  with some_positive_Max [OF p] show "lastCheckedLabel svcs = TimeOfDay (Max (set (map checked_at_ms svcs)))"
    by (simp add: lastCheckedLabel_Cons formatCheckedAt_def)
qed

theorem last_checked_label_witness:
  "lastCheckedLabel
     [\<lparr>name = ''api'', url = ''https://api.example.org'', is_up = False, status_code = None,
       latency_ms = None, checked_at_ms = 0, service_error = None\<rparr>,
      \<lparr>name = ''web'', url = ''https://www.example.org'', is_up = False, status_code = None,
       latency_ms = None, checked_at_ms = 0, service_error = None\<rparr>] = NotAvailable
   \<and> lastCheckedLabel
     [\<lparr>name = ''api'', url = ''https://api.example.org'', is_up = True, status_code = Some 200,
       latency_ms = Some 12, checked_at_ms = 1700000000000, service_error = None\<rparr>,
      \<lparr>name = ''web'', url = ''https://www.example.org'', is_up = True, status_code = Some 200,
       latency_ms = Some 40, checked_at_ms = 1700000003000, service_error = None\<rparr>,
      \<lparr>name = ''db'', url = ''https://db.example.org'', is_up = False, status_code = None,
       latency_ms = None, checked_at_ms = 0, service_error = Some ''timeout''\<rparr>]
     = TimeOfDay 1700000003000"
  using last_checked_label [of
     "[\<lparr>name = ''api'', url = ''https://api.example.org'', is_up = False, status_code = None,
       latency_ms = None, checked_at_ms = 0, service_error = None\<rparr>,
      \<lparr>name = ''web'', url = ''https://www.example.org'', is_up = False, status_code = None,
       latency_ms = None, checked_at_ms = 0, service_error = None\<rparr>]"]
    last_checked_label [of
     "[\<lparr>name = ''api'', url = ''https://api.example.org'', is_up = True, status_code = Some 200,
       latency_ms = Some 12, checked_at_ms = 1700000000000, service_error = None\<rparr>,
      \<lparr>name = ''web'', url = ''https://www.example.org'', is_up = True, status_code = Some 200,
       latency_ms = Some 40, checked_at_ms = 1700000003000, service_error = None\<rparr>,
      \<lparr>name = ''db'', url = ''https://db.example.org'', is_up = False, status_code = None,
       latency_ms = None, checked_at_ms = 0, service_error = Some ''timeout''\<rparr>]"]
  by simp

section \<open>Lifecycle properties\<close>

lemma onlyTimer_onMount: "onlyTimer h (onMount ms h (component_init w))"
  by (simp add: onlyTimer_def onMount_def setInterval_def startUpdate_def component_init_def)

lemma onlyTimer_step:
  "onlyTimer h c \<Longrightarrow> \<not> isMount e \<Longrightarrow> onlyTimer h (step ms update c e)"
  by (cases e)
    (auto simp: onlyTimer_def tick_def startUpdate_def settle_def onDestroy_def clearInterval_def
      list_all_iff)

lemma onlyTimer_steps:
  "onlyTimer h c \<Longrightarrow> \<not> list_ex isMount es \<Longrightarrow> onlyTimer h (foldl (step ms update) c es)"
  by (induction es arbitrary: c) (simp_all add: onlyTimer_step)

lemma onDestroy_clears:
  "onlyTimer h c \<Longrightarrow> h \<noteq> 0 \<Longrightarrow> timers (onDestroy c) = []"
  by (auto simp: onlyTimer_def onDestroy_def clearInterval_def list_all_iff filter_empty_conv)

lemma onDestroy_no_timers: "timers c = [] \<Longrightarrow> onDestroy c = c"
  by (simp add: onDestroy_def clearInterval_def split: option.splits)

lemma no_timers_step:
  "timers c = [] \<Longrightarrow> \<not> isMount e \<Longrightarrow>
   timers (step ms update c e) = [] \<and> invoked (step ms update c e) = invoked c"
  by (cases e) (auto simp: tick_def settle_def onDestroy_no_timers)

lemma no_timers_steps:
  "timers c = [] \<Longrightarrow> \<not> list_ex isMount es \<Longrightarrow>
   timers (foldl (step ms update) c es) = [] \<and> invoked (foldl (step ms update) c es) = invoked c"
proof (induction es arbitrary: c)
  case Nil
  then show ?case by simp
next
  case (Cons e es)
  from Cons.prems have e: "\<not> isMount e" and es: "\<not> list_ex isMount es" by simp_all
  from no_timers_step [OF Cons.prems(1) e, of ms update]
  have t: "timers (step ms update c e) = []" and i: "invoked (step ms update c e) = invoked c"
    by simp_all
  from Cons.IH [OF t es] i show ?case by simp
qed

text \<open>
  C8. A component is mounted with a non-zero timer handle (the handles of \<open>setInterval\<close>
  are positive), runs through any events, and is destroyed. Destroying it again changes
  nothing; the component has no timer left; and whatever timer firings, settled fetches
  and further destructions follow, no further adapter call is started.
\<close>

theorem destroy_twice:
  assumes "h \<noteq> 0" and "\<not> list_ex isMount es" and "\<not> list_ex isMount es'"
  shows "onDestroy (onDestroy (foldl (step ms update) (onMount ms h (component_init w)) es))
           = onDestroy (foldl (step ms update) (onMount ms h (component_init w)) es)
     \<and> timers (onDestroy (foldl (step ms update) (onMount ms h (component_init w)) es)) = []
     \<and> invoked (foldl (step ms update)
          (onDestroy (onDestroy (foldl (step ms update) (onMount ms h (component_init w)) es))) es')
        = invoked (foldl (step ms update) (onMount ms h (component_init w)) es)"
proof -
  let ?c = "foldl (step ms update) (onMount ms h (component_init w)) es"
  have o: "onlyTimer h ?c"
    using onlyTimer_onMount assms(2) by (rule onlyTimer_steps)
  have t: "timers (onDestroy ?c) = []"
    using o assms(1) by (rule onDestroy_clears)
  have d: "onDestroy (onDestroy ?c) = onDestroy ?c"
    using t by (rule onDestroy_no_timers)
  have k: "invoked (onDestroy ?c) = invoked ?c"
    by (simp add: onDestroy_def clearInterval_def split: option.splits)
  from no_timers_steps [OF t assms(3), of ms update] d k t show ?thesis by simp
qed

lemma destroy_inputs:
  "\<not> list_ex isMount [Tick 1, Settle (Resolved (42::nat))]"
  "\<not> list_ex isMount [Tick 1, Settle (Rejected ''timeout''), Tick 1, Destroy :: nat event]"
  by simp_all

theorem destroy_twice_witness:
  "(1::nat) \<noteq> 0
   \<and> \<not> list_ex isMount [Tick 1, Settle (Resolved (42::nat))]
   \<and> \<not> list_ex isMount [Tick 1, Settle (Rejected ''timeout''), Tick 1, Destroy :: nat event]
   \<and> onDestroy (onDestroy (foldl CpuUsage_step (onMount 2000 1 (component_init (CpuUsage_init (0::nat))))
        [Tick 1, Settle (Resolved 42)]))
      = onDestroy (foldl CpuUsage_step (onMount 2000 1 (component_init (CpuUsage_init (0::nat))))
        [Tick 1, Settle (Resolved 42)])
   \<and> timers (onDestroy (foldl CpuUsage_step (onMount 2000 1 (component_init (CpuUsage_init (0::nat))))
        [Tick 1, Settle (Resolved 42)])) = []
   \<and> invoked (foldl CpuUsage_step
        (onDestroy (onDestroy (foldl CpuUsage_step (onMount 2000 1 (component_init (CpuUsage_init (0::nat))))
           [Tick 1, Settle (Resolved 42)])))
        [Tick 1, Settle (Rejected ''timeout''), Tick 1, Destroy])
      = invoked (foldl CpuUsage_step (onMount 2000 1 (component_init (CpuUsage_init (0::nat))))
           [Tick 1, Settle (Resolved 42)])"
proof -
  have h: "(1::nat) \<noteq> 0" by simp
  note r = destroy_twice [OF h destroy_inputs, of 2000 updateCpuUsage "CpuUsage_init 0"]
  show ?thesis
    unfolding CpuUsage_step_def
    by (intro conjI h destroy_inputs r [THEN conjunct1] r [THEN conjunct2, THEN conjunct1]
        r [THEN conjunct2, THEN conjunct2])
qed

lemma pending_ticks:
  "h \<in> set (map fst (timers c)) \<Longrightarrow>
   pending (foldl (step ms update) c (replicate k (Tick h))) = pending c + k
   \<and> invoked (foldl (step ms update) c (replicate k (Tick h))) = invoked c + k
   \<and> timers (foldl (step ms update) c (replicate k (Tick h))) = timers c"
proof (induction k arbitrary: c)
  case 0
  show ?case by simp
next
  case (Suc k)
  have "h \<in> set (map fst (timers (tick h c)))"
    using Suc.prems by (simp add: tick_def startUpdate_def)
  from Suc.IH [OF this] Suc.prems show ?case
    by (simp add: tick_def startUpdate_def)
qed

text \<open>
  C6, as the components have it. The timer callback is the update function itself: every
  firing of the timer starts a new adapter call at once, whether or not earlier calls are
  still outstanding. After mounting and \<open>k\<close> firings of the timer with no call settled,
  \<open>k + 1\<close> calls have been started and all of them are outstanding.
\<close>

theorem ticks_start_overlapping_calls:
  "pending (foldl (step ms update) (component_init w) (Mount h # replicate k (Tick h))) = k + 1
   \<and> invoked (foldl (step ms update) (component_init w) (Mount h # replicate k (Tick h))) = k + 1"
proof -
  have "h \<in> set (map fst (timers (onMount ms h (component_init w))))"
    by (simp add: onMount_def setInterval_def)
  from pending_ticks [OF this, of ms update k] show ?thesis
    by (simp add: onMount_def setInterval_def startUpdate_def component_init_def)
qed

text \<open>
  The CPU component is mounted and its timer fires before the first call has settled:
  two calls are outstanding.
\<close>

theorem second_call_overlaps_first:
  "pending (foldl CpuUsage_step (component_init (CpuUsage_init (0::nat))) [Mount 1, Tick 1]) = 2"
  by (simp add: CpuUsage_step_def JiraTickets_step_def DockerContainers_step_def onMount_def
      setInterval_def startUpdate_def component_init_def tick_def settle_def onDestroy_def
      clearInterval_def CpuUsage_init_def JiraTickets_init_def DockerContainers_init_def)

text \<open>
  C7, as the components have it. Destroying a mounted component clears its timer and
  nothing else. When a fetch that was in flight settles afterwards, the rest of the
  update function runs and changes the component's variables exactly as it would without
  the destruction; no adapter call is started by it.
\<close>

theorem result_after_destroy_is_applied:
  assumes "0 < pending c" and "onlyTimer h c" and "h \<noteq> 0"
  shows "timers (step ms update c Destroy) = []
     \<and> widget (step ms update (step ms update c Destroy) (Settle out)) = update out (widget c)
     \<and> widget (step ms update (step ms update c Destroy) (Settle out))
         = widget (step ms update c (Settle out))
     \<and> invoked (step ms update (step ms update c Destroy) (Settle out)) = invoked c"
proof -
  have t: "timers (step ms update c Destroy) = []"
    using assms(2,3) by (simp add: onDestroy_clears)
  have p: "pending (onDestroy c) = pending c" and w: "widget (onDestroy c) = widget c"
    and i: "invoked (onDestroy c) = invoked c"
    by (simp_all add: onDestroy_def clearInterval_def split: option.splits)
  from t p w i assms(1) show ?thesis
    by (simp add: settle_def)
qed

theorem result_after_destroy_is_applied_witness:
  "0 < pending (JiraTickets_step (component_init (JiraTickets_init :: nat JiraTickets)) (Mount 1))
   \<and> onlyTimer 1 (JiraTickets_step (component_init (JiraTickets_init :: nat JiraTickets)) (Mount 1))
   \<and> (1::nat) \<noteq> 0
   \<and> timers (JiraTickets_step
        (JiraTickets_step (component_init (JiraTickets_init :: nat JiraTickets)) (Mount 1)) Destroy) = []
   \<and> widget (JiraTickets_step (JiraTickets_step
        (JiraTickets_step (component_init JiraTickets_init) (Mount 1)) Destroy)
        (Settle (Resolved [7::nat])))
      = \<lparr>tickets = [7], jira_error = None, jira_isLoading = False\<rparr>"
proof -
  let ?c = "step 30000 updateTickets (component_init (JiraTickets_init :: nat JiraTickets)) (Mount 1)"
  have p: "0 < pending ?c"
    by (simp add: onMount_def setInterval_def startUpdate_def component_init_def)
  have o: "onlyTimer 1 ?c"
    by (simp add: onlyTimer_onMount)
  have h: "(1::nat) \<noteq> 0" by simp
  have w: "widget ?c = JiraTickets_init"
    by (simp add: onMount_def setInterval_def startUpdate_def component_init_def)
  note r = result_after_destroy_is_applied [OF p o h, of 30000 updateTickets "Resolved [7]"]
  have u: "updateTickets (Resolved [7::nat]) JiraTickets_init
      = \<lparr>tickets = [7], jira_error = None, jira_isLoading = False\<rparr>"
    by (simp add: JiraTickets_init_def)
  from r [THEN conjunct2, THEN conjunct1] w u
  have v: "widget (step 30000 updateTickets (step 30000 updateTickets ?c Destroy)
        (Settle (Resolved [7::nat])))
      = \<lparr>tickets = [7], jira_error = None, jira_isLoading = False\<rparr>"
    by (simp only:)
  show ?thesis
    unfolding JiraTickets_step_def
    by (intro conjI p o h r [THEN conjunct1] v)
qed

text \<open>
  The Jira component is mounted and destroyed while its first fetch is in flight; when
  the fetch then resolves, the tickets and the loading flag change.
\<close>

theorem destroyed_jira_still_updated:
  "widget (foldl JiraTickets_step (component_init JiraTickets_init) [Mount 1, Destroy])
     = \<lparr>tickets = ([] :: nat list), jira_error = None, jira_isLoading = True\<rparr>
   \<and> widget (foldl JiraTickets_step (component_init JiraTickets_init)
        [Mount 1, Destroy, Settle (Resolved [7::nat])])
     = \<lparr>tickets = [7], jira_error = None, jira_isLoading = False\<rparr>"
  by (simp add: CpuUsage_step_def JiraTickets_step_def DockerContainers_step_def onMount_def
      setInterval_def startUpdate_def component_init_def tick_def settle_def onDestroy_def
      clearInterval_def CpuUsage_init_def JiraTickets_init_def DockerContainers_init_def)

text \<open>
  C9, as the components have it. Mounting a component starts one adapter call at once and
  registers a repeating timer whose period is 2000 ms for the CPU and RAM components,
  3000 ms for the service-health, Sentry and Spotify components, 5000 ms for the Docker
  component and 30000 ms for both Jira components.
\<close>

theorem mount_polls_at_interval:
  "timers (CpuUsage_step (component_init cpu) (Mount h)) = [(h, 2000)]
   \<and> invoked (CpuUsage_step (component_init cpu) (Mount h)) = 1
   \<and> timers (RamUsage_step (component_init ram) (Mount h)) = [(h, 2000)]
   \<and> invoked (RamUsage_step (component_init ram) (Mount h)) = 1
   \<and> timers (HealthUp_step (component_init health) (Mount h)) = [(h, 3000)]
   \<and> invoked (HealthUp_step (component_init health) (Mount h)) = 1
   \<and> timers (SentryIssues_step (component_init sentry) (Mount h)) = [(h, 3000)]
   \<and> invoked (SentryIssues_step (component_init sentry) (Mount h)) = 1
   \<and> timers (Spotify_step (component_init spotify) (Mount h)) = [(h, 3000)]
   \<and> invoked (Spotify_step (component_init spotify) (Mount h)) = 1
   \<and> timers (DockerContainers_step (component_init docker) (Mount h)) = [(h, 5000)]
   \<and> invoked (DockerContainers_step (component_init docker) (Mount h)) = 1
   \<and> timers (JiraTickets_step (component_init jira) (Mount h)) = [(h, 30000)]
   \<and> invoked (JiraTickets_step (component_init jira) (Mount h)) = 1
   \<and> timers (JiraTicketsOld_step (component_init old) (Mount h)) = [(h, 30000)]
   \<and> invoked (JiraTicketsOld_step (component_init old) (Mount h)) = 1"
  by (simp add: CpuUsage_step_def RamUsage_step_def HealthUp_step_def SentryIssues_step_def
      Spotify_step_def DockerContainers_step_def JiraTickets_step_def JiraTicketsOld_step_def
      onMount_def setInterval_def startUpdate_def component_init_def)

text \<open>The Docker component registers its timer with a period of 5000 ms, not 3000 ms.\<close>

theorem docker_polls_every_five_seconds:
  "map snd (timers (DockerContainers_step
      (component_init (DockerContainers_init :: nat DockerContainers)) (Mount 1))) = [5000]
   \<and> map snd (timers (DockerContainers_step
      (component_init (DockerContainers_init :: nat DockerContainers)) (Mount 1))) \<noteq> [3000]"
  by (simp add: CpuUsage_step_def JiraTickets_step_def DockerContainers_step_def onMount_def
      setInterval_def startUpdate_def component_init_def tick_def settle_def onDestroy_def
      clearInterval_def CpuUsage_init_def JiraTickets_init_def DockerContainers_init_def)

end
